theory Spec2Isabelle
  imports Main "HOL-Library.Char_ord" "HOL-Library.List_Lexorder"
begin

section \<open>The board application and its mock database\<close>

subsection \<open>JavaScript values and documents\<close>

text \<open>
  The documents of the board hold strings and \<open>null\<close> only; timestamps are the ISO-8601
  strings of \<open>new Date().toISOString()\<close>, whose lexicographic order (the order of
  \<open>string\<close> used here) is the chronological one. A property that is missing reads as
  \<open>undefined\<close>, and a property can also hold \<open>undefined\<close> in memory until the store is
  written back as JSON.
\<close>

datatype jval = JUndefined | JNull | JStr string

type_synonym doc = "string \<rightharpoonup> jval"

text \<open>Reading a property \<open>d.k\<close>.\<close>

definition field :: "doc \<Rightarrow> string \<Rightarrow> jval" where
  "field d k = (case d k of None \<Rightarrow> JUndefined | Some v \<Rightarrow> v)"

text \<open>JavaScript truthiness of these values: \<open>undefined\<close>, \<open>null\<close> and \<open>""\<close> are falsy.\<close>

fun truthy :: "jval \<Rightarrow> bool" where
  "truthy JUndefined = False"
| "truthy JNull = False"
| "truthy (JStr s) = (s \<noteq> [])"

text \<open>\<open>Object.assign({}, a, b)\<close>: the properties of \<open>b\<close> override those of \<open>a\<close>.\<close>

definition assign :: "doc \<Rightarrow> doc \<Rightarrow> doc" where
  "assign a b = a ++ b"

text \<open>
  The store \<open>{ outbound_records: {...}, outbound_logs: {...} }\<close> kept in localStorage.
  The log collection is an association list in insertion order, the order in which
  \<open>Object.keys\<close> enumerates its \<open>log_...\<close> keys; the order of the record keys is not
  observed by anything modelled here, so the records are a map.
\<close>

record store =
  outbound_records :: "string \<rightharpoonup> doc"
  outbound_logs :: "(string \<times> doc) list"

text \<open>\<open>readStore\<close> on an empty localStorage.\<close>

definition emptyStore :: store where
  "emptyStore = \<lparr>outbound_records = Map.empty, outbound_logs = []\<rparr>"

text \<open>
  \<open>writeStore\<close> is \<open>JSON.stringify\<close>, read back by \<open>JSON.parse\<close>: a property whose value
  is \<open>undefined\<close> is dropped from every document.
\<close>

definition stringify :: "doc \<Rightarrow> doc" where
  "stringify d = (\<lambda>k. if d k = Some JUndefined then None else d k)"

definition writeStore :: "store \<Rightarrow> store" where
  "writeStore s =
     \<lparr>outbound_records = (\<lambda>k. map_option stringify (outbound_records s k)),
      outbound_logs = map (\<lambda>(i, d). (i, stringify d)) (outbound_logs s)\<rparr>"

text \<open>
  What an operation reads from its environment: \<open>now\<close> is the
  \<open>new Date().toISOString()\<close> at its start, \<open>stamp\<close> the \<open>serverTimestamp()\<close> of its
  write, \<open>clock\<close> the digits of \<open>Date.now()\<close> in the fallback key of a document,
  \<open>logClock\<close> and \<open>logRandom\<close> the digits of \<open>Date.now()\<close> and of the random number
  in the key of its log entry, and \<open>logStamp\<close> the \<open>serverTimestamp()\<close> of that entry.
\<close>

record env =
  now :: string
  stamp :: string
  clock :: string
  logClock :: string
  logRandom :: string
  logStamp :: string

text \<open>The keys \<open>`doc_${Date.now()}`\<close> and \<open>`log_${Date.now()}_${...}`\<close>.\<close>

definition fresh :: "env \<Rightarrow> string" where
  "fresh e = ''doc_'' @ clock e"

definition logId :: "env \<Rightarrow> string" where
  "logId e = ''log_'' @ logClock e @ ''_'' @ logRandom e"

text \<open>The key \<open>docRef.id || data.name || `doc_${Date.now()}`\<close> of a write.\<close>

definition docId :: "string \<Rightarrow> doc \<Rightarrow> string \<Rightarrow> string" where
  "docId i data fr =
     (if i \<noteq> [] then i
      else (case field data ''name'' of
              JStr n \<Rightarrow> if n \<noteq> [] then n else fr
            | _ \<Rightarrow> fr))"

text \<open>
  The collection of the records is a plain object, so \<open>store[col][id]\<close> also finds
  what \<open>Object.prototype\<close> gives every object. Such a value is truthy, has no
  enumerable property of its own and none of the properties read here, so it stands
  as the empty document.
\<close>

definition inherited :: "string list" where
  "inherited =
     [''constructor'', ''__defineGetter__'', ''__defineSetter__'', ''hasOwnProperty'',
      ''__lookupGetter__'', ''__lookupSetter__'', ''isPrototypeOf'',
      ''propertyIsEnumerable'', ''toString'', ''valueOf'', ''__proto__'',
      ''toLocaleString'']"

definition getProp :: "(string \<rightharpoonup> doc) \<Rightarrow> string \<Rightarrow> doc option" where
  "getProp m k =
     (case m k of
        Some d \<Rightarrow> Some d
      | None \<Rightarrow> if k \<in> set inherited then Some Map.empty else None)"

text \<open>
  \<open>store[col][id] = v\<close>, as \<open>JSON.stringify\<close> sees it afterwards: assigning to
  \<open>__proto__\<close> where the object has no such property of its own sets its prototype
  and adds no property.
\<close>

definition setProp :: "(string \<rightharpoonup> doc) \<Rightarrow> string \<Rightarrow> doc \<Rightarrow> (string \<rightharpoonup> doc)" where
  "setProp m k v = (if k = ''__proto__'' \<and> m k = None then m else m(k \<mapsto> v))"

text \<open>\<open>store[col][id] = Object.assign({}, store[col][id] || {}, data)\<close> on the records.\<close>

definition mergeDoc :: "string \<Rightarrow> doc \<Rightarrow> store \<Rightarrow> store" where
  "mergeDoc k data s =
     s\<lparr>outbound_records :=
         setProp (outbound_records s) k
           (assign (case getProp (outbound_records s) k of None \<Rightarrow> Map.empty | Some d \<Rightarrow> d)
              data)\<rparr>"

text \<open>\<open>setDocMock\<close> ignores its options and always merges.\<close>

definition setDocMock :: "string \<Rightarrow> doc \<Rightarrow> string \<Rightarrow> store \<Rightarrow> store" where
  "setDocMock i data fr s = writeStore (mergeDoc (docId i data fr) data s)"

text \<open>Setting a property of a JavaScript object: an existing key keeps its place.\<close>

fun objSet :: "string \<Rightarrow> doc \<Rightarrow> (string \<times> doc) list \<Rightarrow> (string \<times> doc) list" where
  "objSet k v [] = [(k, v)]"
| "objSet k v (p # ps) = (if fst p = k then (k, v) # ps else p # objSet k v ps)"

definition addDocMock :: "string \<Rightarrow> doc \<Rightarrow> store \<Rightarrow> store" where
  "addDocMock lid data s =
     writeStore (s\<lparr>outbound_logs :=
        objSet lid (assign data [''id'' \<mapsto> JStr lid]) (outbound_logs s)\<rparr>)"

text \<open>
  The transaction object of \<open>runTransactionMock\<close> works on the copy of the store read at
  the start: \<open>tx.get\<close> gives the document or \<open>null\<close>, \<open>tx.set\<close> and \<open>tx.update\<close> both
  merge, and the copy is written back when the update function has run.
\<close>

definition tx_get :: "string \<Rightarrow> store \<Rightarrow> doc option" where
  "tx_get i s = getProp (outbound_records s) i"

definition tx_set :: "string \<Rightarrow> doc \<Rightarrow> string \<Rightarrow> store \<Rightarrow> store" where
  "tx_set i data fr s = mergeDoc (docId i data fr) data s"

definition tx_update :: "string \<Rightarrow> doc \<Rightarrow> store \<Rightarrow> store" where
  "tx_update i flds s = mergeDoc i flds s"

text \<open>
  \<open>runTransactionMock(dbRef, updateFn)\<close> reads the store, awaits \<open>updateFn(tx)\<close> and
  then writes the store. A parameter that got no argument is \<open>undefined\<close>, and calling
  it throws a \<open>TypeError\<close>, before anything is written.
\<close>

datatype js_error = TypeError

definition runTransactionMock ::
  "(store \<Rightarrow> store) option \<Rightarrow> (store \<Rightarrow> store) option \<Rightarrow> store \<Rightarrow> js_error + store" where
  "runTransactionMock dbRef updateFn s =
     (case updateFn of
        None \<Rightarrow> Inl TypeError
      | Some f \<Rightarrow> Inr (writeStore (f s)))"

text \<open>
  The wrapper \<open>runTransaction = (...args) => mockDB.runTransaction(...args)\<close> of the
  mock mode hands its arguments on as they are: the first is \<open>dbRef\<close>, the second
  \<open>updateFn\<close>.
\<close>

definition arg :: "'a list \<Rightarrow> nat \<Rightarrow> 'a option" where
  "arg xs i = (if i < length xs then Some (xs ! i) else None)"

definition runTransaction :: "(store \<Rightarrow> store) list \<Rightarrow> store \<Rightarrow> js_error + store" where
  "runTransaction args s = runTransactionMock (arg args 0) (arg args 1) s"

subsection \<open>The operations of the board\<close>

definition writeLog :: "env \<Rightarrow> string \<Rightarrow> store \<Rightarrow> store" where
  "writeLog e txt s =
     addDocMock (logId e) [''text'' \<mapsto> JStr txt, ''ts'' \<mapsto> JStr (logStamp e)] s"

text \<open>
  \<open>markOut\<close>. The snapshot of the mock is \<open>{ exists: !!data, data: () => data }\<close>, so
  \<open>snap && snap.exists ? snap.data() : (snap || null)\<close> is the document when there is
  one and the snapshot object itself otherwise; that object is truthy and has no
  \<open>returnAt\<close>, so \<open>data ? data.returnAt : null\<close> reads \<open>undefined\<close> from it.
\<close>

definition markOut_data :: "env \<Rightarrow> string \<Rightarrow> string \<Rightarrow> doc option \<Rightarrow> doc" where
  "markOut_data e name place snap =
     [''name'' \<mapsto> JStr name,
      ''outAt'' \<mapsto> JStr (now e),
      ''returnAt'' \<mapsto> (case snap of Some d \<Rightarrow> field d ''returnAt'' | None \<Rightarrow> JUndefined),
      ''place'' \<mapsto> JStr (if place \<noteq> [] then place else ''(unspecified)''),
      ''status'' \<mapsto> JStr ''out'',
      ''lastUpdated'' \<mapsto> JStr (stamp e)]"

text \<open>The function \<open>async (tx) => { ... }\<close> that \<open>markOut\<close> passes to \<open>runTransaction\<close>.\<close>

definition markOut_tx :: "env \<Rightarrow> string \<Rightarrow> string \<Rightarrow> store \<Rightarrow> store" where
  "markOut_tx e name place st =
     tx_set name (markOut_data e name place (tx_get name st)) (fresh e) st"

text \<open>
  \<open>markOut\<close> calls \<open>runTransaction\<close> with that function as its only argument. When the
  transaction throws, the \<open>catch\<close> shows an alert and the log is not written; the
  result is the alert, if any, and the store afterwards.
\<close>

definition markOut :: "env \<Rightarrow> string \<Rightarrow> string \<Rightarrow> store \<Rightarrow> string option \<times> store" where
  "markOut e name place s =
     (case runTransaction [markOut_tx e name place] s of
        Inl err \<Rightarrow> (Some ''Failed to mark out - try again'', s)
      | Inr s' \<Rightarrow>
          (None, writeLog e (name @ '' marked OUT at '' @ now e @ '' to '' @ place) s'))"

definition markReturn_new :: "env \<Rightarrow> string \<Rightarrow> doc" where
  "markReturn_new e name =
     [''name'' \<mapsto> JStr name,
      ''outAt'' \<mapsto> JNull,
      ''returnAt'' \<mapsto> JStr (now e),
      ''place'' \<mapsto> JNull,
      ''status'' \<mapsto> JStr ''returned'',
      ''lastUpdated'' \<mapsto> JStr (stamp e)]"

definition markReturn_fields :: "env \<Rightarrow> doc" where
  "markReturn_fields e =
     [''returnAt'' \<mapsto> JStr (now e),
      ''status'' \<mapsto> JStr ''returned'',
      ''lastUpdated'' \<mapsto> JStr (stamp e)]"

definition markReturn_tx :: "env \<Rightarrow> string \<Rightarrow> store \<Rightarrow> store" where
  "markReturn_tx e name st =
     (case tx_get name st of
        None \<Rightarrow> tx_set name (markReturn_new e name) (fresh e) st
      | Some d \<Rightarrow> tx_update name (markReturn_fields e) st)"

definition markReturn :: "env \<Rightarrow> string \<Rightarrow> store \<Rightarrow> string option \<times> store" where
  "markReturn e name s =
     (case runTransaction [markReturn_tx e name] s of
        Inl err \<Rightarrow> (Some ''Failed to mark return - try again'', s)
      | Inr s' \<Rightarrow> (None, writeLog e (name @ '' RETURNED at '' @ now e) s'))"

definition deleteRecord_data :: "env \<Rightarrow> string \<Rightarrow> doc" where
  "deleteRecord_data e name =
     [''name'' \<mapsto> JStr name,
      ''outAt'' \<mapsto> JNull,
      ''returnAt'' \<mapsto> JNull,
      ''place'' \<mapsto> JNull,
      ''status'' \<mapsto> JStr ''unregistered'',
      ''lastUpdated'' \<mapsto> JStr (stamp e)]"

definition deleteRecord :: "env \<Rightarrow> string \<Rightarrow> store \<Rightarrow> store" where
  "deleteRecord e name s =
     writeLog e (name @ '' record cleared'')
       (setDocMock name (deleteRecord_data e name) (fresh e) s)"

definition addEmployee :: "env \<Rightarrow> string \<Rightarrow> store \<Rightarrow> store" where
  "addEmployee e name s =
     (if name = [] then s
      else writeLog e (''Admin added employee '' @ name)
             (setDocMock name
                [''name'' \<mapsto> JStr name,
                 ''status'' \<mapsto> JStr ''unregistered'',
                 ''createdAt'' \<mapsto> JStr (stamp e)] (fresh e) s))"


text \<open>The status shown for a record, \<open>statusForRecord\<close>.\<close>

definition statusForRecord :: "doc option \<Rightarrow> string" where
  "statusForRecord r =
     (case r of
        None \<Rightarrow> ''unregistered''
      | Some d \<Rightarrow>
          if field d ''status'' = JStr ''in'' then ''in''
          else if field d ''status'' = JStr ''out'' then ''out''
          else if field d ''status'' = JStr ''returned'' then ''returned''
          else if truthy (field d ''late'') then ''late''
          else ''unregistered'')"

subsection \<open>The live feed of the mock database\<close>

text \<open>
  \<open>buildSnap\<close> for the log collection enumerates \<open>Object.keys\<close> of what \<open>readStore\<close>
  returns; \<open>queryMock\<close> returns the collection itself, \<open>orderByMock\<close> and \<open>limitMock\<close>
  return \<open>null\<close> and are not looked at. The subscriber of the board turns each document
  of the snapshot into \<open>{ id: s.id, ...s.data() }\<close>.
\<close>

definition buildSnap_logs :: "store \<Rightarrow> (string \<times> doc) list" where
  "buildSnap_logs s = outbound_logs s"

definition logsFeed :: "store \<Rightarrow> doc list" where
  "logsFeed s = map (\<lambda>(i, d). assign [''id'' \<mapsto> JStr i] d) (buildSnap_logs s)"

text \<open>The \<open>ts\<close> of every entry of a feed, in the order delivered.\<close>

definition feedStamps :: "doc list \<Rightarrow> jval list" where
  "feedStamps ds = map (\<lambda>d. field d ''ts'') ds"

text \<open>
  A subscription made by \<open>onSnapshotMock\<close>: the flag \<open>stopped\<close>, the timer of
  \<open>setTimeout(..., 0)\<close> that has not fired yet, the timer of \<open>setInterval(..., 2000)\<close>
  that has not been cleared, and the number of times the callback \<open>cb\<close> has been called.
  The browser fires a pending timeout once and an interval timer until it is cleared.
\<close>

record subscription =
  stopped :: bool
  timeoutPending :: bool
  intervalActive :: bool
  calls :: nat

datatype event = TimeoutFires | IntervalFires | Unsubscribe

definition onSnapshotMock :: subscription where
  "onSnapshotMock =
     \<lparr>stopped = False, timeoutPending = True, intervalActive = True, calls = 0\<rparr>"

fun step :: "subscription \<Rightarrow> event \<Rightarrow> subscription" where
  "step q TimeoutFires =
     (if timeoutPending q then q\<lparr>timeoutPending := False, calls := calls q + 1\<rparr> else q)"
| "step q IntervalFires =
     (if intervalActive q then (if stopped q then q else q\<lparr>calls := calls q + 1\<rparr>) else q)"
| "step q Unsubscribe = q\<lparr>stopped := True, intervalActive := False\<rparr>"

definition steps :: "subscription \<Rightarrow> event list \<Rightarrow> subscription" where
  "steps q evs = foldl step q evs"

subsection \<open>Sequences of operations\<close>





text \<open>
  The invariant of the records. A record that names an employee is kept under that
  name, so no two records are of one employee; a record that is out has an \<open>outAt\<close>;
  a record that is returned has a \<open>returnAt\<close>, not before its \<open>outAt\<close> when both are
  timestamps.
\<close>

definition nullish :: "jval \<Rightarrow> bool" where
  "nullish v = (v = JNull \<or> v = JUndefined)"

definition doc_ok :: "doc \<Rightarrow> bool" where
  "doc_ok d =
     ((field d ''status'' = JStr ''out'' \<longrightarrow> \<not> nullish (field d ''outAt'')) \<and>
      (field d ''status'' = JStr ''returned'' \<longrightarrow>
         \<not> nullish (field d ''returnAt'') \<and>
         (\<forall>a b. field d ''outAt'' = JStr a \<longrightarrow> field d ''returnAt'' = JStr b \<longrightarrow> a \<le> b)))"

definition entry_ok :: "string \<Rightarrow> doc \<Rightarrow> bool" where
  "entry_ok k d = ((\<forall>n. field d ''name'' = JStr n \<longrightarrow> n = k) \<and> doc_ok d)"

definition record_inv :: "store \<Rightarrow> bool" where
  "record_inv s = (\<forall>k d. outbound_records s k = Some d \<longrightarrow> entry_ok k d)"

section \<open>The signage server\<close>

text \<open>
  A \<open>Date\<close> is the number of milliseconds of local time since the local midnight of
  1 January 1970, a Thursday; \<open>toDateString\<close> is the number of its calendar day.
\<close>

type_synonym date = nat

definition getHours :: "date \<Rightarrow> nat" where
  "getHours d = (d div 3600000) mod 24"

definition getDay :: "date \<Rightarrow> nat" where
  "getDay d = (d div 86400000 + 4) mod 7"

definition toDateString :: "date \<Rightarrow> nat" where
  "toDateString d = d div 86400000"

record user =
  user_id :: nat
  user_name :: string
  user_role :: string
  user_department :: string

record outbound_rec =
  ob_id :: nat
  userId :: nat
  userName :: string
  ob_department :: string
  outTime :: date
  expectedReturnTime :: "date option"
  location :: string
  ob_status :: string
  createdAt :: date
  inTime :: "date option"

record syslog =
  log_userId :: nat
  log_userName :: string
  action :: string
  timestamp :: date

record server =
  users :: "user list"
  outbounds :: "outbound_rec list"
  systemLogs :: "syslog list"

datatype http_error = NotFound404

text \<open>\<open>POST /api/outbounds\<close> by the user \<open>uid\<close>, \<open>uname\<close> of the token, at the time \<open>t\<close>.\<close>

definition createOutbound ::
  "date \<Rightarrow> nat \<Rightarrow> string \<Rightarrow> string \<Rightarrow> date \<Rightarrow> date option \<Rightarrow> server \<Rightarrow> server" where
  "createOutbound t uid uname loc out expected sv =
     sv\<lparr>outbounds := outbounds sv @
           [\<lparr>ob_id = t, userId = uid, userName = uname,
             ob_department = (case find (\<lambda>u. user_id u = uid) (users sv) of
                                Some u \<Rightarrow> user_department u | None \<Rightarrow> []),
             outTime = out, expectedReturnTime = expected, location = loc,
             ob_status = ''outbound'', createdAt = t, inTime = None\<rparr>],
        systemLogs := systemLogs sv @
           [\<lparr>log_userId = uid, log_userName = uname,
             action = ''outbound_created: '' @ loc, timestamp = t\<rparr>]\<rparr>"

text \<open>\<open>PUT /api/outbounds/:id/return\<close>: the first record with that id is marked.\<close>

fun markFirst :: "nat \<Rightarrow> date \<Rightarrow> outbound_rec list \<Rightarrow> outbound_rec list" where
  "markFirst i t [] = []"
| "markFirst i t (o1 # os) =
     (if ob_id o1 = i then o1\<lparr>inTime := Some t, ob_status := ''returned''\<rparr> # os
      else o1 # markFirst i t os)"

definition returnOutbound ::
  "date \<Rightarrow> nat \<Rightarrow> string \<Rightarrow> nat \<Rightarrow> server \<Rightarrow> http_error + server" where
  "returnOutbound t uid uname i sv =
     (case find (\<lambda>o1. ob_id o1 = i) (outbounds sv) of
        None \<Rightarrow> Inl NotFound404
      | Some o1 \<Rightarrow>
          Inr (sv\<lparr>outbounds := markFirst i t (outbounds sv),
                  systemLogs := systemLogs sv @
                    [\<lparr>log_userId = uid, log_userName = uname,
                      action = ''outbound_returned: '' @ location o1, timestamp = t\<rparr>]\<rparr>))"

text \<open>
  \<open>GET /api/admin/logs\<close>: \<open>systemLogs.slice(-limit).reverse()\<close>, with \<open>limit\<close> the number
  read from the query and 100 without one. \<open>slice\<close> counts a negative start from the
  end and copies; \<open>reverse\<close> works on the copy. The handler gives its response and the
  state it leaves.
\<close>

definition slice :: "int \<Rightarrow> 'a list \<Rightarrow> 'a list" where
  "slice start xs =
     (let n = int (length xs);
          k = (if start < 0 then max (n + start) 0 else min start n)
      in drop (nat k) xs)"

definition queryLimit :: "int option \<Rightarrow> int" where
  "queryLimit q = (case q of None \<Rightarrow> 100 | Some n \<Rightarrow> n)"

definition getLogs :: "int option \<Rightarrow> server \<Rightarrow> syslog list \<times> server" where
  "getLogs q sv = (rev (slice (- queryLimit q) (systemLogs sv)), sv)"

text \<open>
  \<open>getStatusSummary\<close> at the time \<open>t\<close>. The Korean label \<open>statusText\<close> is left out, and
  \<open>currentLocation\<close> is \<open>None\<close> where the source gives the label of the office.
\<close>

definition STATUS_COLORS :: "string \<Rightarrow> string" where
  "STATUS_COLORS st =
     (if st = ''office'' then ''#4285F4''
      else if st = ''outbound'' then ''#FBBC05''
      else if st = ''returned'' then ''#9AA0A6''
      else if st = ''absent'' then ''#EA4335''
      else if st = ''vacation'' then ''#8E44AD''
      else [])"

record userStatus =
  us_userId :: nat
  us_userName :: string
  us_department :: string
  status :: string
  color :: string
  currentLocation :: "string option"
  lastUpdate :: date

definition statusOf :: "date \<Rightarrow> outbound_rec list \<Rightarrow> user \<Rightarrow> string" where
  "statusOf t obs u =
     (let currentOutbound = find (\<lambda>o1. userId o1 = user_id u \<and> ob_status o1 = ''outbound'') obs;
          st = (if currentOutbound \<noteq> None then ''outbound'' else ''office'');
          currentHour = getHours t;
          currentDay = getDay t
      in if currentDay = 0 \<or> currentDay = 6 then ''vacation''
         else if currentHour < 9 \<or> currentHour \<ge> 18 then ''absent''
         else if currentHour \<ge> 9 \<and> currentOutbound = None then
           (if filter (\<lambda>o1. userId o1 = user_id u \<and>
                            toDateString (createdAt o1) = toDateString t) obs = []
            then ''absent'' else st)
         else st)"

definition userStatusOf :: "date \<Rightarrow> outbound_rec list \<Rightarrow> user \<Rightarrow> userStatus" where
  "userStatusOf t obs u =
     \<lparr>us_userId = user_id u, us_userName = user_name u, us_department = user_department u,
      status = statusOf t obs u,
      color = STATUS_COLORS (statusOf t obs u),
      currentLocation =
        map_option location
          (find (\<lambda>o1. userId o1 = user_id u \<and> ob_status o1 = ''outbound'') obs),
      lastUpdate = t\<rparr>"

record summary =
  total :: nat
  office :: nat
  outbound :: nat
  returned :: nat
  absent :: nat
  vacation :: nat
  summary_users :: "userStatus list"

definition getStatusSummary :: "date \<Rightarrow> server \<Rightarrow> summary" where
  "getStatusSummary t sv =
     (let us = map (userStatusOf t (outbounds sv)) (users sv)
      in \<lparr>total = length (users sv),
          office = length (filter (\<lambda>x. status x = ''office'') us),
          outbound = length (filter (\<lambda>x. status x = ''outbound'') us),
          returned = length (filter (\<lambda>x. status x = ''returned'') us),
          absent = length (filter (\<lambda>x. status x = ''absent'') us),
          vacation = length (filter (\<lambda>x. status x = ''vacation'') us),
          summary_users = us\<rparr>)"

section \<open>Example inputs\<close>

text \<open>Two moments of one day, with what the operations read from the environment there.\<close>

definition env1 :: env where
  "env1 = \<lparr>now = ''2024-01-01T10:00:00.000Z'', stamp = ''2024-01-01T10:00:00.001Z'',
           clock = ''1704103200001'', logClock = ''1704103200002'', logRandom = ''17'',
           logStamp = ''2024-01-01T10:00:00.002Z''\<rparr>"

definition env2 :: env where
  "env2 = \<lparr>now = ''2024-01-01T15:30:00.000Z'', stamp = ''2024-01-01T15:30:00.001Z'',
           clock = ''1704123000001'', logClock = ''1704123000002'', logRandom = ''42'',
           logStamp = ''2024-01-01T15:30:00.002Z''\<rparr>"

text \<open>A store in which Kim is back from the client and Lee is out.\<close>

definition storeKimLee :: store where
  "storeKimLee =
     \<lparr>outbound_records =
        [''Kim'' \<mapsto> [''name'' \<mapsto> JStr ''Kim'',
                     ''outAt'' \<mapsto> JStr ''2024-01-01T10:00:00.000Z'',
                     ''returnAt'' \<mapsto> JStr ''2024-01-01T15:30:00.000Z'',
                     ''place'' \<mapsto> JStr ''Client HQ'',
                     ''status'' \<mapsto> JStr ''returned''],
         ''Lee'' \<mapsto> [''name'' \<mapsto> JStr ''Lee'',
                     ''outAt'' \<mapsto> JStr ''2024-01-01T11:00:00.000Z'',
                     ''returnAt'' \<mapsto> JNull,
                     ''place'' \<mapsto> JStr ''Depot'',
                     ''status'' \<mapsto> JStr ''out'']],
      outbound_logs = []\<rparr>"

text \<open>A server with two users and nothing recorded, and one with three log entries.\<close>

definition server0 :: server where
  "server0 =
     \<lparr>users = [\<lparr>user_id = 1, user_name = ''Kim'', user_role = ''employee'',
                user_department = ''Sales''\<rparr>,
               \<lparr>user_id = 2, user_name = ''Lee'', user_role = ''admin'',
                user_department = ''Office''\<rparr>],
      outbounds = [], systemLogs = []\<rparr>"

definition server1 :: server where
  "server1 =
     \<lparr>users = [],
      outbounds = [],
      systemLogs =
        [\<lparr>log_userId = 1, log_userName = ''Kim'', action = ''login'',
           timestamp = 1704103200000\<rparr>,
         \<lparr>log_userId = 1, log_userName = ''Kim'', action = ''outbound_created: Client HQ'',
           timestamp = 1704103260000\<rparr>,
         \<lparr>log_userId = 1, log_userName = ''Kim'', action = ''outbound_returned: Client HQ'',
           timestamp = 1704123000000\<rparr>]\<rparr>"

text \<open>Monday 1 January 2024 and Saturday 6 January 2024, both at 10:00 local time.\<close>

definition monday10 :: date where
  "monday10 = 1704103200000"

definition saturday10 :: date where
  "saturday10 = 1704535200000"

section \<open>What the operations write\<close>

subsection \<open>Documents\<close>

lemma stringify_idem: "stringify (stringify d) = stringify d"
  by (rule ext) (simp add: stringify_def)

lemma field_stringify: "field (stringify d) k = field d k"
  by (simp add: field_def stringify_def split: option.splits)

lemma field_assign: "field (assign a b) k = (case b k of None \<Rightarrow> field a k | Some v \<Rightarrow> v)"
  by (simp add: field_def assign_def map_add_def split: option.splits)






subsection \<open>Keys\<close>

lemma fresh_not_proto: "fresh e \<noteq> ''__proto__''"
  by (simp add: fresh_def)

lemma fresh_not_empty: "fresh e \<noteq> []"
  by (simp add: fresh_def)

lemma old_getProp:
  "(case getProp m k of None \<Rightarrow> Map.empty | Some d \<Rightarrow> d) =
   (case m k of None \<Rightarrow> Map.empty | Some d \<Rightarrow> d)"
  by (simp add: getProp_def split: option.splits)

lemma docId_name:
  "d ''name'' = Some (JStr name) \<Longrightarrow> docId name d fr = (if name \<noteq> [] then name else fr)"
  by (simp add: docId_def field_def)

subsection \<open>The transactions of the board do not commit\<close>

text \<open>
  With one argument, \<open>updateFn\<close> is \<open>undefined\<close>: the transaction throws, whatever the
  function, and \<open>markOut\<close> and \<open>markReturn\<close> leave the store as it was.
\<close>

lemma runTransaction_one: "runTransaction [f] s = Inl TypeError"
  by (simp add: runTransaction_def runTransactionMock_def arg_def)


lemma markReturn_fails:
  "markReturn e name s = (Some ''Failed to mark return - try again'', s)"
  by (simp add: markReturn_def runTransaction_one)

subsection \<open>The records after each operation\<close>

lemma records_writeStore:
  "outbound_records (writeStore s) k = map_option stringify (outbound_records s k)"
  by (simp add: writeStore_def)

lemma records_writeLog:
  "outbound_records (writeLog e t s) k = map_option stringify (outbound_records s k)"
  by (simp add: writeLog_def addDocMock_def writeStore_def)

lemma records_mergeDoc:
  "outbound_records (mergeDoc i data s) k =
     (if i = ''__proto__'' \<and> outbound_records s i = None then outbound_records s k
      else if k = i
      then Some (assign (case outbound_records s i of None \<Rightarrow> Map.empty | Some d \<Rightarrow> d) data)
      else outbound_records s k)"
  by (cases "i = ''__proto__''"; cases "outbound_records s i")
    (simp_all add: mergeDoc_def setProp_def old_getProp)

lemma records_setDocMock:
  "outbound_records (writeLog e t (setDocMock i data fr s)) k =
     (if docId i data fr = ''__proto__'' \<and> outbound_records s (docId i data fr) = None
      then map_option stringify (outbound_records s k)
      else if k = docId i data fr
      then Some (stringify
             (assign (case outbound_records s k of None \<Rightarrow> Map.empty | Some d \<Rightarrow> d) data))
      else map_option stringify (outbound_records s k))"
  by (cases "docId i data fr = ''__proto__''"; cases "outbound_records s (docId i data fr)")
    (simp_all add: setDocMock_def records_writeLog records_writeStore records_mergeDoc
      stringify_idem option.map_comp comp_def)



lemma records_deleteRecord:
  "outbound_records (deleteRecord e n s) k =
     (if n = ''__proto__'' \<and> outbound_records s n = None
      then map_option stringify (outbound_records s k)
      else if k = (if n \<noteq> [] then n else fresh e)
      then Some (stringify
             (assign (case outbound_records s k of None \<Rightarrow> Map.empty | Some d \<Rightarrow> d)
                (deleteRecord_data e n)))
      else map_option stringify (outbound_records s k))"
proof -
  have "docId n (deleteRecord_data e n) (fresh e) = (if n \<noteq> [] then n else fresh e)"
    by (simp add: deleteRecord_data_def docId_name)
  then show ?thesis
    using fresh_not_proto [of e]
    by (cases "n = ''__proto__''"; cases "outbound_records s n")
      (simp_all add: deleteRecord_def records_setDocMock)
qed






section \<open>Properties of the operations\<close>

subsection \<open>markOut\<close>

text \<open>
  C1 at an input where the code departs from it: Kim, who has no record, marks out to
  the client. The transaction throws, the alert of the \<open>catch\<close> is shown, and the store
  is as before: no record is written, and no log entry.
\<close>

theorem markOut_writes_nothing:
  "markOut env1 ''Kim'' ''Client HQ'' emptyStore =
     (Some ''Failed to mark out - try again'', emptyStore) \<and>
   outbound_records (snd (markOut env1 ''Kim'' ''Client HQ'' emptyStore)) ''Kim'' = None \<and>
   outbound_logs (snd (markOut env1 ''Kim'' ''Client HQ'' emptyStore)) = []"
  by (simp add: markOut_def runTransaction_def runTransactionMock_def arg_def emptyStore_def)

subsection \<open>markReturn\<close>

text \<open>
  C2 at an input where the code departs from it: Kim, who has no record, marks the
  return. The transaction throws as it does for \<open>markOut\<close>, and no record is created.
\<close>

theorem markReturn_writes_nothing:
  "markReturn env1 ''Kim'' emptyStore =
     (Some ''Failed to mark return - try again'', emptyStore) \<and>
   outbound_records (snd (markReturn env1 ''Kim'' emptyStore)) ''Kim'' = None \<and>
   outbound_logs (snd (markReturn env1 ''Kim'' emptyStore)) = []"
  by (simp add: markReturn_def runTransaction_def runTransactionMock_def arg_def emptyStore_def)

text \<open>Nor is a record that exists updated: Lee stays out.\<close>

lemma markReturn_updates_nothing:
  "map_option (\<lambda>d. field d ''status'')
     (outbound_records (snd (markReturn env2 ''Lee'' storeKimLee)) ''Lee'') = Some (JStr ''out'')"
  by (simp add: markReturn_fails storeKimLee_def field_def)

text \<open>The board goes on showing Lee as out and Kim as returned.\<close>

lemma statusForRecord_example:
  "statusForRecord (outbound_records (snd (markReturn env2 ''Lee'' storeKimLee)) ''Lee'') = ''out'' \<and>
   statusForRecord (outbound_records (snd (markReturn env2 ''Lee'' storeKimLee)) ''Kim'')
     = ''returned'' \<and>
   statusForRecord (outbound_records (snd (markReturn env2 ''Lee'' storeKimLee)) ''Park'')
     = ''unregistered''"
  by (simp add: markReturn_fails storeKimLee_def statusForRecord_def field_def)

subsection \<open>deleteRecord\<close>

text \<open>
  C7, as the code has it: \<open>deleteRecord\<close> merges the cleared fields into the record of
  the employee whether or not there is one, so for every store and every employee id
  other than \<open>__proto__\<close> the record afterwards is unregistered with \<open>outAt\<close>,
  \<open>returnAt\<close> and \<open>place\<close> null; an unknown id gets such a record, and nothing reports
  that it was not found.
\<close>

theorem deleteRecord_record:
  assumes "name \<noteq> ''__proto__''"
  shows "\<exists>r. outbound_records (deleteRecord e name s) (if name \<noteq> [] then name else fresh e)
              = Some r \<and>
             field r ''status'' = JStr ''unregistered'' \<and>
             field r ''outAt'' = JNull \<and> field r ''returnAt'' = JNull \<and>
             field r ''place'' = JNull"
  using assms
  by (simp add: records_deleteRecord field_stringify field_assign deleteRecord_data_def)

text \<open>The record of Kim, who is back from the client, is cleared.\<close>

theorem deleteRecord_record_witness:
  "''Kim'' \<noteq> ''__proto__'' \<and>
   map_option (\<lambda>d. field d ''status'') (outbound_records storeKimLee ''Kim'')
     = Some (JStr ''returned'') \<and>
   (\<exists>r. outbound_records (deleteRecord env2 ''Kim'' storeKimLee) ''Kim'' = Some r \<and>
        field r ''status'' = JStr ''unregistered'' \<and>
        field r ''outAt'' = JNull \<and> field r ''returnAt'' = JNull \<and>
        field r ''place'' = JNull)"
proof -
  have ne: "''Kim'' \<noteq> ''__proto__''" by simp
  have before: "map_option (\<lambda>d. field d ''status'') (outbound_records storeKimLee ''Kim'')
     = Some (JStr ''returned'')"
    by (simp add: storeKimLee_def field_def)
  from deleteRecord_record [OF ne, of env2 storeKimLee]
  have "\<exists>r. outbound_records (deleteRecord env2 ''Kim'' storeKimLee) ''Kim'' = Some r \<and>
        field r ''status'' = JStr ''unregistered'' \<and>
        field r ''outAt'' = JNull \<and> field r ''returnAt'' = JNull \<and>
        field r ''place'' = JNull"
    by simp
  with ne before show ?thesis by (intro conjI)
qed

text \<open>Clearing the record of an id that the store does not know creates one.\<close>

theorem deleteRecord_unknown_counterexample:
  "outbound_records emptyStore ''Ghost'' = None \<and>
   map_option (\<lambda>r. field r ''status'')
     (outbound_records (deleteRecord env1 ''Ghost'' emptyStore) ''Ghost'')
     = Some (JStr ''unregistered'')"
  by (simp add: records_deleteRecord field_stringify field_assign deleteRecord_data_def
      emptyStore_def)

text \<open>Under the id \<open>__proto__\<close> nothing is stored where nothing was.\<close>

lemma deleteRecord_proto:
  "outbound_records (deleteRecord e ''__proto__'' emptyStore) k = None"
  by (simp add: records_deleteRecord emptyStore_def)




subsection \<open>The invariant of the records\<close>











lemma record_inv_empty: "record_inv emptyStore"
  by (simp add: record_inv_def emptyStore_def)




subsection \<open>The status summary of the server\<close>

lemma example_days:
  "getDay monday10 = 1 \<and> getHours monday10 = 10 \<and>
   getDay saturday10 = 6 \<and> getHours saturday10 = 10"
  by (simp add: getDay_def getHours_def monday10_def saturday10_def)

lemma statusOf_values:
  "statusOf t obs u = ''office'' \<or> statusOf t obs u = ''outbound'' \<or>
   statusOf t obs u = ''absent'' \<or> statusOf t obs u = ''vacation''"
  by (simp add: statusOf_def Let_def)

lemma statusOf_not_returned: "statusOf t obs u \<noteq> ''returned''"
  using statusOf_values [of t obs u] by auto

text \<open>
  C10: for every state of the server and every time, no user of the summary has the
  status \<open>returned\<close>, and the count \<open>returned\<close> of the summary is 0.
\<close>

theorem summary_never_returned:
  "returned (getStatusSummary t sv) = 0 \<and>
   filter (\<lambda>x. status x = ''returned'') (summary_users (getStatusSummary t sv)) = []"
  by (simp add: getStatusSummary_def Let_def filter_empty_conv userStatusOf_def
      statusOf_not_returned)


text \<open>
  Kim leaves on Monday at 10:00 and the return is recorded at once: the record is
  returned, and the summary has Kim in the office.
\<close>

lemma returned_record_example:
  "map_option (\<lambda>sv. (map ob_status (outbounds sv),
                       map (\<lambda>x. (us_userId x, status x))
                         (summary_users (getStatusSummary monday10 sv)),
                       returned (getStatusSummary monday10 sv)))
     (case returnOutbound monday10 1 ''Kim'' monday10
             (createOutbound monday10 1 ''Kim'' ''Client HQ'' monday10 None server0) of
        Inl err \<Rightarrow> None | Inr sv \<Rightarrow> Some sv)
   = Some ([''returned''], [(1, ''office''), (2, ''absent'')], 0)"
  by (simp add: returnOutbound_def createOutbound_def server0_def getStatusSummary_def
      userStatusOf_def statusOf_def Let_def getDay_def getHours_def toDateString_def
      monday10_def)





subsection \<open>The logs\<close>

lemma slice_last: "0 < n \<Longrightarrow> slice (- n) xs = drop (length xs - nat n) xs"
proof -
  assume pos: "0 < n"
  have "nat (max (int (length xs) + - n) 0) = length xs - nat n"
    using pos by arith
  with pos show ?thesis by (simp add: slice_def Let_def)
qed

lemma sorted_drop_rev:
  "sorted xs \<Longrightarrow> sorted_wrt (\<ge>) (rev (drop k xs))"
  by (simp add: sorted_wrt_rev sorted_wrt_drop)

text \<open>
  The log endpoint of the server: with a positive limit (100 when the query gives
  none) it answers with the last \<open>limit\<close> entries appended, the latest first, in
  descending order of timestamp when the entries were appended in ascending order, and
  leaves the state as it was.
\<close>

lemma getLogs_recent:
  assumes pos: "0 < queryLimit q"
  shows "fst (getLogs q sv) =
           rev (drop (length (systemLogs sv) - nat (queryLimit q)) (systemLogs sv))"
    and "length (fst (getLogs q sv)) \<le> nat (queryLimit q)"
    and "snd (getLogs q sv) = sv"
    and "sorted (map timestamp (systemLogs sv)) \<Longrightarrow>
         sorted_wrt (\<ge>) (map timestamp (fst (getLogs q sv)))"
proof -
  show eq: "fst (getLogs q sv) =
           rev (drop (length (systemLogs sv) - nat (queryLimit q)) (systemLogs sv))"
    using pos by (simp add: getLogs_def slice_last)
  show "length (fst (getLogs q sv)) \<le> nat (queryLimit q)"
    using pos by (simp add: getLogs_def slice_last)
  show "snd (getLogs q sv) = sv" by (simp add: getLogs_def)
  assume "sorted (map timestamp (systemLogs sv))"
  then have "sorted_wrt (\<ge>)
     (rev (drop (length (systemLogs sv) - nat (queryLimit q)) (map timestamp (systemLogs sv))))"
    by (rule sorted_drop_rev)
  then show "sorted_wrt (\<ge>) (map timestamp (fst (getLogs q sv)))"
    by (simp add: eq rev_map drop_map)
qed

lemma getLogs_example:
  "map action (fst (getLogs (Some 2) server1)) =
     [''outbound_returned: Client HQ'', ''outbound_created: Client HQ'']"
  by (simp add: getLogs_def slice_def queryLimit_def server1_def Let_def)

text \<open>The feed of the mock database delivers the whole log, in the order of its keys.\<close>

lemma logs_objSet_fresh:
  "k \<notin> fst ` set ps \<Longrightarrow> objSet k v ps = ps @ [(k, v)]"
  by (induction ps) auto

lemma feed_ts_stringify:
  "field (assign [''id'' \<mapsto> JStr i] (stringify d)) ''ts'' =
   field (assign [''id'' \<mapsto> JStr i] d) ''ts''"
  by (simp add: field_def assign_def stringify_def map_add_def split: option.splits)

lemma feedStamps_logsFeed:
  "feedStamps (logsFeed s) =
   map (\<lambda>p. field (assign [''id'' \<mapsto> JStr (fst p)] (snd p)) ''ts'') (outbound_logs s)"
  by (simp add: feedStamps_def logsFeed_def buildSnap_logs_def comp_def case_prod_beta)

lemma length_logsFeed: "length (logsFeed s) = length (outbound_logs s)"
  by (simp add: logsFeed_def buildSnap_logs_def)

lemma logs_writeLog:
  "outbound_logs (writeLog e txt s) =
   map (\<lambda>p. (fst p, stringify (snd p)))
     (objSet (logId e)
        (assign [''text'' \<mapsto> JStr txt, ''ts'' \<mapsto> JStr (logStamp e)] [''id'' \<mapsto> JStr (logId e)])
        (outbound_logs s))"
  by (simp add: writeLog_def addDocMock_def writeStore_def case_prod_beta)

lemma logs_setDocMock:
  "outbound_logs (setDocMock i data fr s) =
   map (\<lambda>p. (fst p, stringify (snd p))) (outbound_logs s)"
  by (simp add: setDocMock_def writeStore_def mergeDoc_def case_prod_beta)

lemma logs_writeLog_fresh:
  assumes "logId e \<notin> fst ` set (outbound_logs s)"
  shows "feedStamps (logsFeed (writeLog e txt s)) = feedStamps (logsFeed s) @ [JStr (logStamp e)]"
proof -
  have "field (assign [''id'' \<mapsto> JStr (logId e)]
          (assign [''text'' \<mapsto> JStr txt, ''ts'' \<mapsto> JStr (logStamp e)] [''id'' \<mapsto> JStr (logId e)]))
          ''ts'' = JStr (logStamp e)"
    by (simp add: field_def assign_def)
  then show ?thesis
    by (simp add: feedStamps_logsFeed logs_writeLog logs_objSet_fresh [OF assms] comp_def
        feed_ts_stringify)
qed

text \<open>
  C6 at an input where the code departs from it: Kim is added at 10:00 and the record
  of Kim is cleared at 15:30, each with its log entry. The feed that the board
  subscribes to with \<open>orderBy("ts", "desc")\<close> and \<open>limit(50)\<close> delivers the two
  entries the older first.
\<close>

theorem mock_feed_oldest_first:
  "feedStamps (logsFeed (deleteRecord env2 ''Kim'' (addEmployee env1 ''Kim'' emptyStore)))
     = [JStr ''2024-01-01T10:00:00.002Z'', JStr ''2024-01-01T15:30:00.002Z''] \<and>
   (''2024-01-01T10:00:00.002Z'' :: string) < ''2024-01-01T15:30:00.002Z''"
  by (simp add: feedStamps_logsFeed deleteRecord_def addEmployee_def logs_writeLog
      logs_setDocMock field_def assign_def stringify_def map_add_def emptyStore_def logId_def
      env1_def env2_def)

subsection \<open>Unsubscribing\<close>

text \<open>
  C9 at the input where the code departs from it: a subscription that is unsubscribed
  at once has had no callback when \<open>unsubscribe\<close> returns, and gets one when the
  timeout of the first snapshot fires.
\<close>

theorem unsubscribe_then_timeout:
  "calls (steps onSnapshotMock [Unsubscribe]) = 0 \<and>
   calls (steps onSnapshotMock [Unsubscribe, TimeoutFires]) = 1"
  by (simp add: steps_def onSnapshotMock_def)

text \<open>
  What does hold: \<open>unsubscribe\<close> twice is \<open>unsubscribe\<close> once, and once the first
  snapshot has been delivered nothing is delivered after \<open>unsubscribe\<close>.
\<close>

lemma unsubscribe_idem: "step (step q Unsubscribe) Unsubscribe = step q Unsubscribe"
  by simp

lemma quiet_steps:
  "\<not> timeoutPending q \<Longrightarrow> \<not> intervalActive q \<or> stopped q \<Longrightarrow> calls (steps q evs) = calls q"
proof (induction evs arbitrary: q)
  case Nil
  then show ?case by (simp add: steps_def)
next
  case (Cons ev evs)
  have "\<not> timeoutPending (step q ev)" "\<not> intervalActive (step q ev) \<or> stopped (step q ev)"
    "calls (step q ev) = calls q"
    using Cons.prems by (cases ev; simp)+
  with Cons.IH [of "step q ev"] show ?case by (simp add: steps_def)
qed

lemma unsubscribe_after_first_call:
  "\<not> timeoutPending q \<Longrightarrow> calls (steps (step q Unsubscribe) evs) = calls (step q Unsubscribe)"
  by (rule quiet_steps) simp_all

end
